theory Spec2Isabelle
  imports Complex_Main
begin

section \<open>Canvas engine: data model\<close>

text \<open>
  The data model of \<^verbatim>\<open>lib/canvas-engine\<close>. A JavaScript \<^verbatim>\<open>number\<close> that holds a
  coordinate or a width is a real, and the one place that computes with such numbers
  (the distance filter of \<open>handleMove\<close>) rounds every result as double arithmetic
  does. A millisecond timestamp is a natural number, an optional field is an \<open>option\<close>.
  Field names carry a prefix (\<open>p_\<close>, \<open>s_\<close>, \<open>op_\<close>) because several interfaces of the
  source share the names \<^verbatim>\<open>id\<close>, \<^verbatim>\<open>userId\<close>, \<^verbatim>\<open>color\<close> and \<^verbatim>\<open>timestamp\<close>.
\<close>

record Point =
  p_x :: real
  p_y :: real
  p_pressure :: "real option"

datatype Tool = Brush | Eraser

record DrawingStroke =
  s_id :: string
  s_userId :: string
  s_tool :: Tool
  s_color :: string
  s_strokeWidth :: real
  s_points :: "Point list"
  s_timestamp :: nat

datatype OpType = Op_add | Op_undo | Op_redo | Op_clear

record DrawOperation =
  op_type :: OpType
  op_stroke :: "DrawingStroke option"
  op_userId :: string
  op_timestamp :: nat

record CanvasState =
  strokes :: "DrawingStroke list"
  undoStack :: "DrawOperation list"
  redoStack :: "DrawOperation list"

section \<open>Canvas engine: state transitions\<close>

text \<open>
  Every transition is a pure function of the source. The value read from
  \<^verbatim>\<open>Date.now()\<close> is the extra argument \<open>now\<close>.
\<close>

definition addStroke :: "CanvasState \<Rightarrow> DrawingStroke \<Rightarrow> string \<Rightarrow> nat \<Rightarrow> CanvasState" where
  "addStroke state stroke userId now =
     (let operation = \<lparr>op_type = Op_add, op_stroke = Some stroke,
                       op_userId = userId, op_timestamp = now\<rparr>
      in \<lparr>strokes = strokes state @ [stroke],
          undoStack = undoStack state @ [operation],
          redoStack = []\<rparr>)"

definition undoOperation :: "CanvasState \<Rightarrow> string \<Rightarrow> nat \<Rightarrow> CanvasState" where
  "undoOperation state userId now =
     (if undoStack state = [] then state
      else
        let lastOperation = last (undoStack state);
            newUndoStack = butlast (undoStack state);
            newStrokes =
              (case op_stroke lastOperation of
                 Some ls \<Rightarrow>
                   if op_type lastOperation = Op_add
                   then filter (\<lambda>s. s_id s \<noteq> s_id ls) (strokes state)
                   else strokes state
               | None \<Rightarrow> strokes state);
            undoOp = \<lparr>op_type = Op_undo, op_stroke = op_stroke lastOperation,
                      op_userId = userId, op_timestamp = now\<rparr>
        in \<lparr>strokes = newStrokes,
            undoStack = newUndoStack,
            redoStack = redoStack state @ [undoOp]\<rparr>)"

definition redoOperation :: "CanvasState \<Rightarrow> string \<Rightarrow> nat \<Rightarrow> CanvasState" where
  "redoOperation state userId now =
     (if redoStack state = [] then state
      else
        let lastRedo = last (redoStack state);
            newRedoStack = butlast (redoStack state)
        in (case op_stroke lastRedo of
              Some rs \<Rightarrow>
                \<lparr>strokes = strokes state @ [rs],
                 undoStack = undoStack state @
                   [\<lparr>op_type = Op_add, op_stroke = Some rs,
                     op_userId = userId, op_timestamp = now\<rparr>],
                 redoStack = newRedoStack\<rparr>
            | None \<Rightarrow>
                \<lparr>strokes = strokes state,
                 undoStack = undoStack state,
                 redoStack = newRedoStack\<rparr>))"

definition clearCanvas :: "string \<Rightarrow> CanvasState" where
  "clearCanvas userId = \<lparr>strokes = [], undoStack = [], redoStack = []\<rparr>"

definition createInitialState :: CanvasState where
  "createInitialState = \<lparr>strokes = [], undoStack = [], redoStack = []\<rparr>"

section \<open>Drawing session state (hook \<^verbatim>\<open>useDrawingState\<close>)\<close>

record User =
  u_id :: string
  u_name :: string
  u_color :: string
  u_cursorPosition :: "Point option"
  u_isDrawing :: "bool option"

record DrawingSettings =
  set_tool :: Tool
  set_color :: string
  set_strokeWidth :: real

definition DEFAULT_COLORS :: "string list" where
  "DEFAULT_COLORS = [''#1a1a2e'', ''#e74c3c'', ''#e67e22'', ''#f1c40f'',
                     ''#2ecc71'', ''#3498db'', ''#9b59b6'', ''#1abc9c'']"

definition USER_COLORS :: "string list" where
  "USER_COLORS = [''hsl(200, 90%, 50%)'', ''hsl(340, 80%, 55%)'', ''hsl(160, 70%, 45%)'',
                  ''hsl(45, 90%, 55%)'', ''hsl(280, 70%, 60%)'', ''hsl(20, 85%, 55%)'']"

text \<open>The decimal text that a template literal produces for a non-negative integer.\<close>

fun string_of_nat :: "nat \<Rightarrow> string" where
  "string_of_nat n =
     (if n < 10 then [''0123456789'' ! n]
      else string_of_nat (n div 10) @ [''0123456789'' ! (n mod 10)])"

declare string_of_nat.simps [simp del]

text \<open>
  The state cells of the hook: three \<^verbatim>\<open>useState\<close> cells, the in-progress stroke and
  the \<^verbatim>\<open>isDrawingRef\<close> reference. An event handler runs to completion and the
  component is rendered again before the next event, so a callback reads the cells
  as the previous handler left them.
\<close>

record DrawingState =
  canvasState :: CanvasState
  settings :: DrawingSettings
  users :: "User list"
  currentStroke :: "DrawingStroke option"
  isDrawingRef :: bool

definition initialDrawingState :: DrawingState where
  "initialDrawingState =
     \<lparr>canvasState = createInitialState,
      settings = \<lparr>set_tool = Brush, set_color = DEFAULT_COLORS ! 0, set_strokeWidth = 4\<rparr>,
      users = [],
      currentStroke = None,
      isDrawingRef = False\<rparr>"

text \<open>\<open>newId\<close> is the value of \<^verbatim>\<open>generateStrokeId()\<close> (clock and random source).\<close>

definition startStroke ::
  "string \<Rightarrow> string \<Rightarrow> nat \<Rightarrow> Point \<Rightarrow> DrawingState \<Rightarrow> DrawingState \<times> DrawingStroke" where
  "startStroke userId newId now point st =
     (let newStroke = \<lparr>s_id = newId, s_userId = userId,
                       s_tool = set_tool (settings st),
                       s_color = set_color (settings st),
                       s_strokeWidth = set_strokeWidth (settings st),
                       s_points = [point], s_timestamp = now\<rparr>
      in (st\<lparr>isDrawingRef := True, currentStroke := Some newStroke\<rparr>, newStroke))"

definition continueStroke ::
  "Point \<Rightarrow> DrawingState \<Rightarrow> DrawingState \<times> DrawingStroke option" where
  "continueStroke point st =
     (case currentStroke st of
        None \<Rightarrow> (st, None)
      | Some cur \<Rightarrow>
          if \<not> isDrawingRef st then (st, None)
          else
            let updatedStroke = cur\<lparr>s_points := s_points cur @ [point]\<rparr>
            in (st\<lparr>currentStroke := Some updatedStroke\<rparr>, Some updatedStroke))"

definition endStroke ::
  "string \<Rightarrow> nat \<Rightarrow> DrawingState \<Rightarrow> DrawingState \<times> DrawingStroke option" where
  "endStroke userId now st =
     (case currentStroke st of
        None \<Rightarrow> (st, None)
      | Some finishedStroke \<Rightarrow>
          if \<not> isDrawingRef st then (st, None)
          else
            (st\<lparr>isDrawingRef := False,
                canvasState :=
                  (if length (s_points finishedStroke) \<ge> 2
                   then addStroke (canvasState st) finishedStroke userId now
                   else canvasState st),
                currentStroke := None\<rparr>,
             Some finishedStroke))"

definition addRemoteStroke :: "DrawingStroke \<Rightarrow> nat \<Rightarrow> DrawingState \<Rightarrow> DrawingState" where
  "addRemoteStroke stroke now st =
     st\<lparr>canvasState := addStroke (canvasState st) stroke (s_userId stroke) now\<rparr>"

definition undo :: "string \<Rightarrow> nat \<Rightarrow> DrawingState \<Rightarrow> DrawingState" where
  "undo userId now st = st\<lparr>canvasState := undoOperation (canvasState st) userId now\<rparr>"

definition redo :: "string \<Rightarrow> nat \<Rightarrow> DrawingState \<Rightarrow> DrawingState" where
  "redo userId now st = st\<lparr>canvasState := redoOperation (canvasState st) userId now\<rparr>"

definition clear :: "string \<Rightarrow> DrawingState \<Rightarrow> DrawingState" where
  "clear userId st = st\<lparr>canvasState := clearCanvas userId\<rparr>"

definition setTool :: "Tool \<Rightarrow> DrawingState \<Rightarrow> DrawingState" where
  "setTool t st = st\<lparr>settings := (settings st)\<lparr>set_tool := t\<rparr>\<rparr>"

definition setColor :: "string \<Rightarrow> DrawingState \<Rightarrow> DrawingState" where
  "setColor c st = st\<lparr>settings := (settings st)\<lparr>set_color := c\<rparr>\<rparr>"

definition setStrokeWidth :: "real \<Rightarrow> DrawingState \<Rightarrow> DrawingState" where
  "setStrokeWidth w st = st\<lparr>settings := (settings st)\<lparr>set_strokeWidth := w\<rparr>\<rparr>"

definition updateUserCursor :: "string \<Rightarrow> Point \<Rightarrow> bool \<Rightarrow> DrawingState \<Rightarrow> DrawingState" where
  "updateUserCursor userId position isDrawing st =
     (let prev = users st
      in st\<lparr>users :=
           (case find (\<lambda>u. u_id u = userId) prev of
              Some existing \<Rightarrow>
                map (\<lambda>u. if u_id u = userId
                         then u\<lparr>u_cursorPosition := Some position,
                                u_isDrawing := Some isDrawing\<rparr>
                         else u) prev
            | None \<Rightarrow>
                let colorIndex = length prev mod length USER_COLORS
                in prev @ [\<lparr>u_id = userId,
                            u_name = ''User '' @ string_of_nat (length prev + 1),
                            u_color = USER_COLORS ! colorIndex,
                            u_cursorPosition = Some position,
                            u_isDrawing = Some isDrawing\<rparr>])\<rparr>)"

definition removeUser :: "string \<Rightarrow> DrawingState \<Rightarrow> DrawingState" where
  "removeUser userId st = st\<lparr>users := filter (\<lambda>u. u_id u \<noteq> userId) (users st)\<rparr>"

text \<open>An empty colour string is falsy, so the palette colour replaces it.\<close>

definition addUser :: "User \<Rightarrow> DrawingState \<Rightarrow> DrawingState" where
  "addUser user st =
     (let prev = users st
      in st\<lparr>users :=
           (case find (\<lambda>u. u_id u = u_id user) prev of
              Some existing \<Rightarrow> prev
            | None \<Rightarrow>
                let colorIndex = length prev mod length USER_COLORS
                in prev @ [user\<lparr>u_color :=
                                  (if u_color user = [] then USER_COLORS ! colorIndex
                                   else u_color user)\<rparr>])\<rparr>)"

definition syncState :: "CanvasState \<Rightarrow> DrawingState \<Rightarrow> DrawingState" where
  "syncState newState st = st\<lparr>canvasState := newState\<rparr>"

section \<open>Sync channel (hook \<^verbatim>\<open>useCanvasSync\<close>)\<close>

text \<open>
  A wire message. The source types the payload as \<^verbatim>\<open>unknown\<close> and casts it by the
  message type without a check; the model pairs every message type with the payload
  that its cast expects, so it covers the messages that the senders of this program
  build. \<^verbatim>\<open>undo\<close>, \<^verbatim>\<open>redo\<close>, \<^verbatim>\<open>clear\<close> and \<^verbatim>\<open>user_leave\<close> carry no payload.
\<close>

datatype MessageBody =
    Stroke_start string Tool string real "Point list"
  | Stroke_update string "Point list"
  | Stroke_end DrawingStroke
  | Undo
  | Redo
  | Clear
  | Cursor_move Point bool
  | User_join string string string
  | User_leave
  | Sync_state CanvasState

record SyncMessage =
  m_body :: MessageBody
  m_userId :: string
  m_timestamp :: nat

text \<open>
  \<open>channelRef\<close> tells whether the channel reference is set (it is null before the
  effect has run and after the session is dismounted).
\<close>

record SyncState =
  channelRef :: bool
  pendingStrokeRef :: "DrawingStroke option"

definition broadcast :: "MessageBody \<Rightarrow> string \<Rightarrow> nat \<Rightarrow> SyncState \<Rightarrow> SyncMessage list" where
  "broadcast body userId now sy =
     (if \<not> channelRef sy then []
      else [\<lparr>m_body = body, m_userId = userId, m_timestamp = now\<rparr>])"

definition sendStrokeStart ::
  "string \<Rightarrow> nat \<Rightarrow> DrawingStroke \<Rightarrow> SyncState \<Rightarrow> SyncState \<times> SyncMessage list" where
  "sendStrokeStart userId now stroke sy =
     (let sy' = sy\<lparr>pendingStrokeRef := Some stroke\<rparr>
      in (sy', broadcast (Stroke_start (s_id stroke) (s_tool stroke) (s_color stroke)
                            (s_strokeWidth stroke) (s_points stroke)) userId now sy'))"

definition sendStrokeUpdate ::
  "string \<Rightarrow> nat \<Rightarrow> Point list \<Rightarrow> SyncState \<Rightarrow> SyncState \<times> SyncMessage list" where
  "sendStrokeUpdate userId now pts sy =
     (case pendingStrokeRef sy of
        None \<Rightarrow> (sy, [])
      | Some pending \<Rightarrow> (sy, broadcast (Stroke_update (s_id pending) pts) userId now sy))"

definition sendStrokeEnd ::
  "string \<Rightarrow> nat \<Rightarrow> DrawingStroke \<Rightarrow> SyncState \<Rightarrow> SyncState \<times> SyncMessage list" where
  "sendStrokeEnd userId now stroke sy =
     (sy\<lparr>pendingStrokeRef := None\<rparr>, broadcast (Stroke_end stroke) userId now sy)"

definition sendCursorPosition ::
  "string \<Rightarrow> nat \<Rightarrow> Point \<Rightarrow> bool \<Rightarrow> SyncState \<Rightarrow> SyncMessage list" where
  "sendCursorPosition userId now position isDrawing sy =
     broadcast (Cursor_move position isDrawing) userId now sy"

definition sendUndo :: "string \<Rightarrow> nat \<Rightarrow> SyncState \<Rightarrow> SyncMessage list" where
  "sendUndo userId now sy = broadcast Undo userId now sy"

definition sendRedo :: "string \<Rightarrow> nat \<Rightarrow> SyncState \<Rightarrow> SyncMessage list" where
  "sendRedo userId now sy = broadcast Redo userId now sy"

definition sendClear :: "string \<Rightarrow> nat \<Rightarrow> SyncState \<Rightarrow> SyncMessage list" where
  "sendClear userId now sy = broadcast Clear userId now sy"

text \<open>
  The handler of the \<^verbatim>\<open>drawing\<close> broadcast event, with the callbacks that
  \<^verbatim>\<open>CollaborativeCanvas\<close> passes: \<^verbatim>\<open>onRemoteStroke\<close> is \<open>addRemoteStroke\<close>,
  \<^verbatim>\<open>onRemoteUndo\<close>, \<^verbatim>\<open>onRemoteRedo\<close> and \<^verbatim>\<open>onRemoteClear\<close> are the local \<open>undo\<close>,
  \<open>redo\<close> and \<open>clear\<close> (with the local user id). The switch has no case for
  \<^verbatim>\<open>stroke_start\<close> and \<^verbatim>\<open>stroke_update\<close>.
\<close>

definition onBroadcast :: "string \<Rightarrow> nat \<Rightarrow> SyncMessage \<Rightarrow> DrawingState \<Rightarrow> DrawingState" where
  "onBroadcast userId now message st =
     (if m_userId message = userId then st
      else
        (case m_body message of
           Stroke_end stroke \<Rightarrow> addRemoteStroke stroke now st
         | Undo \<Rightarrow> undo userId now st
         | Redo \<Rightarrow> redo userId now st
         | Clear \<Rightarrow> clear userId st
         | Cursor_move position isDrawing \<Rightarrow>
             updateUserCursor (m_userId message) position isDrawing st
         | User_join i n c \<Rightarrow>
             addUser \<lparr>u_id = i, u_name = n, u_color = c,
                      u_cursorPosition = None, u_isDrawing = None\<rparr> st
         | User_leave \<Rightarrow> removeUser (m_userId message) st
         | Sync_state newState \<Rightarrow> syncState newState st
         | Stroke_start i t c w ps \<Rightarrow> st
         | Stroke_update i ps \<Rightarrow> st))"

section \<open>The client: \<^verbatim>\<open>CollaborativeCanvas\<close> and \<^verbatim>\<open>DrawingCanvas\<close>\<close>

text \<open>The two references of \<^verbatim>\<open>DrawingCanvas\<close>: its own drawing flag and the last recorded point.\<close>

record CanvasRefs =
  cv_isDrawingRef :: bool
  lastPointRef :: "Point option"

record Client =
  drawing :: DrawingState
  sync :: SyncState
  canvasRefs :: CanvasRefs

definition initialClient :: Client where
  "initialClient =
     \<lparr>drawing = initialDrawingState,
      sync = \<lparr>channelRef = True, pendingStrokeRef = None\<rparr>,
      canvasRefs = \<lparr>cv_isDrawingRef = False, lastPointRef = None\<rparr>\<rparr>"

text \<open>
  A handler returns the client after the event and the messages it has published, in
  order. Each read of the clock is an argument of its own.
\<close>

definition handleDrawStart ::
  "string \<Rightarrow> string \<Rightarrow> nat \<Rightarrow> nat \<Rightarrow> Point \<Rightarrow> Client \<Rightarrow> Client \<times> SyncMessage list" where
  "handleDrawStart userId newId tStroke tMsg point c =
     (let (d, stroke) = startStroke userId newId tStroke point (drawing c);
          (sy, out) = sendStrokeStart userId tMsg stroke (sync c)
      in (c\<lparr>drawing := d, sync := sy\<rparr>, out))"

definition handleDrawMove :: "Point \<Rightarrow> Client \<Rightarrow> Client \<times> SyncMessage list" where
  "handleDrawMove point c = (c\<lparr>drawing := fst (continueStroke point (drawing c))\<rparr>, [])"

definition handleDrawEnd ::
  "string \<Rightarrow> nat \<Rightarrow> nat \<Rightarrow> Client \<Rightarrow> Client \<times> SyncMessage list" where
  "handleDrawEnd userId tOp tMsg c =
     (case endStroke userId tOp (drawing c) of
        (d, None) \<Rightarrow> (c\<lparr>drawing := d\<rparr>, [])
      | (d, Some stroke) \<Rightarrow>
          let (sy, out) = sendStrokeEnd userId tMsg stroke (sync c)
          in (c\<lparr>drawing := d, sync := sy\<rparr>, out))"

definition handleCursorMove ::
  "string \<Rightarrow> nat \<Rightarrow> Point \<Rightarrow> bool \<Rightarrow> Client \<Rightarrow> Client \<times> SyncMessage list" where
  "handleCursorMove userId tMsg point isDrawing c =
     (c, sendCursorPosition userId tMsg point isDrawing (sync c))"

definition handleUndo :: "string \<Rightarrow> nat \<Rightarrow> nat \<Rightarrow> Client \<Rightarrow> Client \<times> SyncMessage list" where
  "handleUndo userId tOp tMsg c =
     (c\<lparr>drawing := undo userId tOp (drawing c)\<rparr>, sendUndo userId tMsg (sync c))"

definition handleRedo :: "string \<Rightarrow> nat \<Rightarrow> nat \<Rightarrow> Client \<Rightarrow> Client \<times> SyncMessage list" where
  "handleRedo userId tOp tMsg c =
     (c\<lparr>drawing := redo userId tOp (drawing c)\<rparr>, sendRedo userId tMsg (sync c))"

definition handleClear :: "string \<Rightarrow> nat \<Rightarrow> Client \<Rightarrow> Client \<times> SyncMessage list" where
  "handleClear userId tMsg c =
     (c\<lparr>drawing := clear userId (drawing c)\<rparr>, sendClear userId tMsg (sync c))"

text \<open>Pointer down (\<^verbatim>\<open>handleStart\<close>): \<open>point\<close> is the result of \<^verbatim>\<open>getPoint\<close>.\<close>

definition handleStart ::
  "string \<Rightarrow> string \<Rightarrow> nat \<Rightarrow> nat \<Rightarrow> nat \<Rightarrow> Point \<Rightarrow> Client \<Rightarrow> Client \<times> SyncMessage list" where
  "handleStart userId newId tStroke tMsg tCursor point c =
     (let c1 = c\<lparr>canvasRefs := \<lparr>cv_isDrawingRef = True, lastPointRef = Some point\<rparr>\<rparr>;
          (c2, out1) = handleDrawStart userId newId tStroke tMsg point c1;
          (c3, out2) = handleCursorMove userId tCursor point True c2
      in (c3, out1 @ out2))"

text \<open>
  Arithmetic on JavaScript numbers is IEEE 754 double arithmetic: the result of
  \<^verbatim>\<open>-\<close>, \<^verbatim>\<open>*\<close>, \<^verbatim>\<open>+\<close> and \<^verbatim>\<open>Math.sqrt\<close> is the exact result rounded to the nearest
  number with a significand of 53 bits, a tie going to the even significand. In
  \<open>roundToDouble v\<close> the exponent of \<open>v\<close> is \<open>e\<close>, the spacing of the doubles around \<open>v\<close>
  is \<open>u\<close>, and \<open>v\<close> lies between the neighbours \<open>n * u\<close> and \<open>(n + 1) * u\<close>. The range of the
  exponent is not bounded here: overflow to \<^verbatim>\<open>Infinity\<close> and the coarser spacing of
  subnormal numbers (magnitudes above about 1.8e308 and below about 2.2e-308) are
  outside the model.
\<close>

definition roundToDouble :: "real \<Rightarrow> real" where
  "roundToDouble v =
     (if v = 0 then 0
      else
        let e = \<lfloor>log 2 \<bar>v\<bar>\<rfloor>;
            u = 2 powr of_int (e - 52);
            q = v / u;
            n = \<lfloor>q\<rfloor>;
            r = q - of_int n
        in (if r < 1 / 2 then of_int n
            else if 1 / 2 < r then of_int (n + 1)
            else if even n then of_int n
            else of_int (n + 1)) * u)"

text \<open>
  Pointer move (\<^verbatim>\<open>handleMove\<close>): the cursor position is always sent; a point whose
  computed distance to the last recorded one is less than 2 is not recorded.
\<close>

definition handleMove ::
  "string \<Rightarrow> nat \<Rightarrow> Point \<Rightarrow> Client \<Rightarrow> Client \<times> SyncMessage list" where
  "handleMove userId tCursor point c =
     (let (c1, out1) = handleCursorMove userId tCursor point (cv_isDrawingRef (canvasRefs c)) c
      in if \<not> cv_isDrawingRef (canvasRefs c1) then (c1, out1)
         else if (case lastPointRef (canvasRefs c1) of
                    Some lp \<Rightarrow>
                      (let dx = roundToDouble (p_x point - p_x lp);
                           dy = roundToDouble (p_y point - p_y lp);
                           distance =
                             roundToDouble (sqrt (roundToDouble
                               (roundToDouble (dx * dx) + roundToDouble (dy * dy))))
                       in distance < 2)
                  | None \<Rightarrow> False)
         then (c1, out1)
         else
           let c2 = c1\<lparr>canvasRefs := (canvasRefs c1)\<lparr>lastPointRef := Some point\<rparr>\<rparr>;
               (c3, out2) = handleDrawMove point c2
           in (c3, out1 @ out2))"

text \<open>Pointer up or leave (\<^verbatim>\<open>handleEnd\<close>).\<close>

definition handleEnd ::
  "string \<Rightarrow> nat \<Rightarrow> nat \<Rightarrow> nat \<Rightarrow> Client \<Rightarrow> Client \<times> SyncMessage list" where
  "handleEnd userId tOp tMsg tCursor c =
     (if cv_isDrawingRef (canvasRefs c) then
        let c1 = c\<lparr>canvasRefs := \<lparr>cv_isDrawingRef = False, lastPointRef = None\<rparr>\<rparr>;
            (c2, out1) = handleDrawEnd userId tOp tMsg c1;
            (c3, out2) = handleCursorMove userId tCursor
                           \<lparr>p_x = 0, p_y = 0, p_pressure = None\<rparr> False c2
        in (c3, out1 @ out2)
      else (c, []))"

text \<open>Delivery of one broadcast message to a client: only the hook state can change.\<close>

definition receive :: "string \<Rightarrow> nat \<Rightarrow> SyncMessage \<Rightarrow> Client \<Rightarrow> Client" where
  "receive userId now message c = c\<lparr>drawing := onBroadcast userId now message (drawing c)\<rparr>"

text \<open>Delivery of a sequence of messages, each with the clock value at its arrival.\<close>

fun deliver :: "string \<Rightarrow> (nat \<times> SyncMessage) list \<Rightarrow> Client \<Rightarrow> Client" where
  "deliver userId [] c = c"
| "deliver userId ((now, message) # rest) c = deliver userId rest (receive userId now message c)"

section \<open>Histories of the canvas engine\<close>

text \<open>
  The states that a client's canvas can take are those that the four transitions
  produce from the initial state. A history is the list of the calls made.
\<close>

datatype Action =
    A_add DrawingStroke string nat
  | A_undo string nat
  | A_redo string nat
  | A_clear string

fun applyAction :: "Action \<Rightarrow> CanvasState \<Rightarrow> CanvasState" where
  "applyAction (A_add stroke userId now) state = addStroke state stroke userId now"
| "applyAction (A_undo userId now) state = undoOperation state userId now"
| "applyAction (A_redo userId now) state = redoOperation state userId now"
| "applyAction (A_clear userId) state = clearCanvas userId"

fun run :: "Action list \<Rightarrow> CanvasState \<Rightarrow> CanvasState" where
  "run [] state = state"
| "run (a # rest) state = run rest (applyAction a state)"

text \<open>A history in which every added stroke has an id that no stroke of the list has yet.\<close>

fun freshAdds :: "Action list \<Rightarrow> CanvasState \<Rightarrow> bool" where
  "freshAdds [] state = True"
| "freshAdds (a # rest) state =
     ((case a of
         A_add stroke userId now \<Rightarrow> s_id stroke \<notin> set (map s_id (strokes state))
       | _ \<Rightarrow> True)
      \<and> freshAdds rest (applyAction a state))"

text \<open>The shape of the two history stacks that the transitions keep.\<close>

definition historyShape :: "CanvasState \<Rightarrow> bool" where
  "historyShape state \<longleftrightarrow>
     list_all (\<lambda>operation. op_type operation = Op_add \<and> op_stroke operation \<noteq> None)
       (undoStack state)
     \<and> list_all (\<lambda>operation. op_stroke operation \<noteq> None) (redoStack state)"

text \<open>
  What a history with fresh stroke ids keeps: the undo stack lists the add operations
  of the strokes in their order, every redo entry carries a stroke, and no id occurs
  twice among the strokes and the undone strokes.
\<close>

definition historyInv :: "CanvasState \<Rightarrow> bool" where
  "historyInv state \<longleftrightarrow>
     map op_stroke (undoStack state) = map Some (strokes state)
     \<and> list_all (\<lambda>operation. op_type operation = Op_add) (undoStack state)
     \<and> list_all (\<lambda>operation. op_stroke operation \<noteq> None) (redoStack state)
     \<and> distinct (map s_id (strokes state @
          map (\<lambda>operation. the (op_stroke operation)) (redoStack state)))"

text \<open>The two message types that only announce a stroke in progress.\<close>

fun isPreview :: "MessageBody \<Rightarrow> bool" where
  "isPreview (Stroke_start i t c w ps) = True"
| "isPreview (Stroke_update i ps) = True"
| "isPreview _ = False"

section \<open>Concrete inputs\<close>

text \<open>A point as \<^verbatim>\<open>getPoint\<close> builds it: the pressure is always 0.5.\<close>

definition pt :: "real \<Rightarrow> real \<Rightarrow> Point" where
  "pt a b = \<lparr>p_x = a, p_y = b, p_pressure = Some (1 / 2)\<rparr>"

definition redStroke :: DrawingStroke where
  "redStroke = \<lparr>s_id = ''1700000000000-k3j9x2a'', s_userId = ''alice'', s_tool = Brush,
                s_color = ''#ff0000'', s_strokeWidth = 4,
                s_points = [pt 0 0, pt 3 4, pt 6 8], s_timestamp = 1\<rparr>"

definition fivePointStroke :: DrawingStroke where
  "fivePointStroke = \<lparr>s_id = ''1700000000500-q8w2e5r'', s_userId = ''alice'', s_tool = Brush,
                s_color = ''#1a1a2e'', s_strokeWidth = 4,
                s_points = [pt 0 0, pt 3 4, pt 6 8, pt 9 12, pt 12 16], s_timestamp = 10\<rparr>"

definition blueStroke :: DrawingStroke where
  "blueStroke = \<lparr>s_id = ''1700000000700-m4n5b6v'', s_userId = ''bob'', s_tool = Eraser,
                 s_color = ''#3498db'', s_strokeWidth = 8,
                 s_points = [pt 20 20, pt 25 20], s_timestamp = 30\<rparr>"

text \<open>
  A pointer position next to the threshold of the distance filter, seen from the
  origin: both coordinates are doubles, \<open>nearXX\<close> and \<open>nearYY\<close> are the doubles that
  their squares round to.
\<close>

definition nearX :: real where
  "nearX = 2 - 1 / 2 ^ 52"

definition nearY :: real where
  "nearY = 7 / 2 ^ 28"

definition nearXX :: real where
  "nearXX = 4 - 1 / 2 ^ 50"

definition nearYY :: real where
  "nearYY = 49 / 2 ^ 56"

definition nearPoint :: Point where
  "nearPoint = \<lparr>p_x = nearX, p_y = nearY, p_pressure = Some (1 / 2)\<rparr>"

definition peerWithStroke :: Client where
  "peerWithStroke = initialClient\<lparr>drawing := addRemoteStroke redStroke 2 initialDrawingState\<rparr>"

section \<open>Auxiliary facts\<close>

subsection \<open>Rounding to a double\<close>

lemma roundToDouble_zero: "roundToDouble 0 = 0"
  by (simp add: roundToDouble_def)

text \<open>An integer below \<open>2 ^ 53\<close> in magnitude is a double, so rounding keeps it.\<close>

lemma roundToDouble_of_int:
  assumes "\<bar>m\<bar> < 2 ^ 53"
  shows "roundToDouble (of_int m) = of_int m"
proof (cases "m = 0")
  case True
  then show ?thesis by (simp add: roundToDouble_def)
next
  case False
  define e where "e = \<lfloor>log 2 \<bar>of_int m :: real\<bar>\<rfloor>"
  define k where "k = nat (52 - e)"
  have pos: "0 < \<bar>of_int m :: real\<bar>" using False by simp
  have "\<bar>of_int m :: real\<bar> < 2 ^ 53"
    using assms by (metis of_int_abs of_int_less_numeral_power_cancel_iff)
  then have "log 2 \<bar>of_int m :: real\<bar> < 53"
    using pos by (simp add: log_less_iff powr_realpow)
  then have le: "e \<le> 52" unfolding e_def by linarith
  have "(2::real) powr of_int (e - 52) =
          (if 0 \<le> e - 52 then 2 ^ nat (e - 52) else 1 / 2 ^ nat (- (e - 52)))"
    by (rule powr_int) simp
  with le have u: "(2::real) powr of_int (e - 52) = 1 / 2 ^ k"
    unfolding k_def by (cases "e = 52") auto
  have q: "(of_int m :: real) / (1 / 2 ^ k) = of_int (m * 2 ^ k)" by simp
  show ?thesis
    using False
    unfolding roundToDouble_def Let_def e_def [symmetric] u q
    by simp
qed

lemma roundToDouble_numeral:
  "(numeral w :: int) < 2 ^ 53 \<Longrightarrow> roundToDouble (numeral w) = numeral w"
  using roundToDouble_of_int [of "numeral w"] by simp

text \<open>
  Rounding of a number whose magnitude lies in the binade from \<open>2 ^ 52 / 2 ^ k\<close>:
  the spacing of the doubles there is \<open>1 / 2 ^ k\<close>.
\<close>

lemma roundToDouble_scaled:
  assumes lo: "2 ^ 52 / 2 ^ k \<le> \<bar>v\<bar>" and hi: "\<bar>v\<bar> < 2 ^ 53 / 2 ^ k"
  shows "roundToDouble v =
           (let q = v * 2 ^ k; n = \<lfloor>q\<rfloor>; r = q - of_int n
            in (if r < 1 / 2 then of_int n
                else if 1 / 2 < r then of_int (n + 1)
                else if even n then of_int n
                else of_int (n + 1)) / 2 ^ k)"
proof -
  define e where "e = 52 - int k"
  have pk: "(2::real) ^ k = 2 powr of_int (int k)"
    by (simp add: powr_realpow)
  have u: "(2::real) powr of_int (e - 52) = 1 / 2 ^ k"
    unfolding pk e_def by (simp add: powr_minus divide_inverse)
  have p52: "(2::real) ^ 52 = 2 powr of_int 52" and p53: "(2::real) ^ 53 = 2 powr of_int 53"
    by (simp_all add: powr_realpow [symmetric])
  have a: "(2::real) ^ 52 / 2 ^ k = 2 powr of_int e"
    unfolding pk p52 powr_diff [symmetric] e_def by simp
  have b: "(2::real) ^ 53 / 2 ^ k = 2 powr of_int (e + 1)"
    unfolding pk p53 powr_diff [symmetric] e_def by (simp add: algebra_simps)
  have "0 < (2::real) ^ 52 / 2 ^ k" by simp
  with lo have vpos: "0 < \<bar>v\<bar>" by linarith
  then have fl: "\<lfloor>log 2 \<bar>v\<bar>\<rfloor> = e"
    using lo hi unfolding a b by (simp add: floor_log_eq_powr_iff)
  have nz: "v \<noteq> 0" using vpos by auto
  have q: "v / (1 / 2 ^ k) = v * 2 ^ k" by simp
  show ?thesis
    using nz unfolding roundToDouble_def Let_def fl u q by simp
qed

text \<open>
  The steps of the distance computation from the origin to \<open>nearPoint\<close>: the squares
  are rounded down, their sum is rounded up to 4.
\<close>

lemma round_nearX: "roundToDouble nearX = nearX"
  unfolding nearX_def by (subst roundToDouble_scaled [of 52]) (simp_all add: Let_def)

lemma round_nearY: "roundToDouble nearY = nearY"
  unfolding nearY_def by (subst roundToDouble_scaled [of 78]) (simp_all add: Let_def)

lemma round_nearXX: "roundToDouble (nearX * nearX) = nearXX"
  unfolding nearX_def nearXX_def by (subst roundToDouble_scaled [of 51]) (simp_all add: Let_def)

lemma round_nearYY: "roundToDouble (nearY * nearY) = nearYY"
  unfolding nearY_def nearYY_def by (subst roundToDouble_scaled [of 103]) (simp_all add: Let_def)

lemma round_near_sum: "roundToDouble (nearXX + nearYY) = 4"
  unfolding nearXX_def nearYY_def by (subst roundToDouble_scaled [of 51]) (simp_all add: Let_def)

lemma sqrt_100: "sqrt 100 = 10"
proof -
  have "sqrt (10\<^sup>2) = (10::real)" by simp
  then show ?thesis by simp
qed

subsection \<open>Lists\<close>

lemma list_all_butlast: "list_all P xs \<Longrightarrow> list_all P (butlast xs)"
  by (auto simp add: list_all_iff dest: in_set_butlastD)

lemma filter_drop_last:
  assumes "\<forall>s\<in>set ss. s_id s \<noteq> s_id T"
  shows "filter (\<lambda>s. s_id s \<noteq> s_id T) (ss @ [T]) = ss"
  using assms by (induction ss) auto

text \<open>Undo of a state whose newest history entry added the newest stroke.\<close>

lemma undo_of_matching:
  assumes "undoStack S = us @ [lop]" and "op_type lop = Op_add" and "op_stroke lop = Some T"
    and "strokes S = ss @ [T]" and "\<forall>s\<in>set ss. s_id s \<noteq> s_id T"
  shows "undoOperation S a t =
           \<lparr>strokes = ss, undoStack = us,
            redoStack = redoStack S @ [\<lparr>op_type = Op_undo, op_stroke = Some T,
                                        op_userId = a, op_timestamp = t\<rparr>]\<rparr>"
  using assms by (simp add: undoOperation_def Let_def filter_drop_last)

subsection \<open>The invariant of histories with fresh ids\<close>

lemma historyInv_initial: "historyInv createInitialState"
  by (simp add: historyInv_def createInitialState_def)

lemma historyInv_clear: "historyInv (clearCanvas a)"
  by (simp add: historyInv_def clearCanvas_def)

lemma historyInv_add:
  assumes "historyInv S" and "s_id T \<notin> set (map s_id (strokes S))"
  shows "historyInv (addStroke S T a t)"
  using assms by (simp add: historyInv_def addStroke_def)

lemma historyInv_last:
  assumes "historyInv S" and "undoStack S = us @ [lop]"
  obtains ss T where "strokes S = ss @ [T]" and "op_stroke lop = Some T"
    and "op_type lop = Op_add" and "\<forall>s\<in>set ss. s_id s \<noteq> s_id T"
    and "map op_stroke us = map Some ss"
proof -
  from assms have m: "map op_stroke us @ [op_stroke lop] = map Some (strokes S)"
    by (simp add: historyInv_def)
  then have "strokes S \<noteq> []" by auto
  then obtain ss T where st: "strokes S = ss @ [T]"
    by (meson rev_exhaust)
  with m have a: "op_stroke lop = Some T" and b: "map op_stroke us = map Some ss" by auto
  from assms have c: "op_type lop = Op_add" by (simp add: historyInv_def)
  from assms st have "distinct (map s_id (ss @ [T]))" by (simp add: historyInv_def)
  then have "s_id T \<notin> set (map s_id ss)" by simp
  then have d: "\<forall>s\<in>set ss. s_id s \<noteq> s_id T" by (metis image_eqI set_map)
  from st a b c d that show thesis by blast
qed

lemma historyInv_undo:
  assumes "historyInv S"
  shows "historyInv (undoOperation S a t)"
proof (cases "undoStack S = []")
  case True
  with assms show ?thesis by (simp add: undoOperation_def)
next
  case False
  then obtain us lop where u: "undoStack S = us @ [lop]" by (meson rev_exhaust)
  from historyInv_last [OF assms u] obtain ss T where
    h: "strokes S = ss @ [T]" "op_stroke lop = Some T" "op_type lop = Op_add"
       "\<forall>s\<in>set ss. s_id s \<noteq> s_id T" "map op_stroke us = map Some ss"
    by blast
  have e: "undoOperation S a t =
           \<lparr>strokes = ss, undoStack = us,
            redoStack = redoStack S @ [\<lparr>op_type = Op_undo, op_stroke = Some T,
                                        op_userId = a, op_timestamp = t\<rparr>]\<rparr>"
    using undo_of_matching [OF u h(3) h(2) h(1) h(4)] .
  from assms u h show ?thesis
    unfolding e by (auto simp add: historyInv_def)
qed

lemma historyInv_redo:
  assumes "historyInv S"
  shows "historyInv (redoOperation S a t)"
proof (cases "redoStack S = []")
  case True
  with assms show ?thesis by (simp add: redoOperation_def)
next
  case False
  then obtain rs lop where r: "redoStack S = rs @ [lop]" by (meson rev_exhaust)
  with assms obtain T where t: "op_stroke lop = Some T" by (auto simp add: historyInv_def)
  have e: "redoOperation S a t =
     \<lparr>strokes = strokes S @ [T],
      undoStack = undoStack S @ [\<lparr>op_type = Op_add, op_stroke = Some T,
                                 op_userId = a, op_timestamp = t\<rparr>],
      redoStack = rs\<rparr>"
    using r t by (simp add: redoOperation_def Let_def)
  from assms r t show ?thesis
    unfolding e by (auto simp add: historyInv_def)
qed

lemma historyInv_run:
  "historyInv S \<Longrightarrow> freshAdds acts S \<Longrightarrow> historyInv (run acts S)"
proof (induction acts arbitrary: S)
  case Nil
  then show ?case by simp
next
  case (Cons act rest)
  have "historyInv (applyAction act S)"
  proof (cases act)
    case (A_add T a t)
    with Cons.prems show ?thesis by (simp add: historyInv_add)
  next
    case (A_undo a t)
    with Cons.prems show ?thesis by (simp add: historyInv_undo)
  next
    case (A_redo a t)
    with Cons.prems show ?thesis by (simp add: historyInv_redo)
  next
    case (A_clear a)
    then show ?thesis by (simp add: historyInv_clear)
  qed
  moreover from Cons.prems have "freshAdds rest (applyAction act S)" by simp
  ultimately show ?case using Cons.IH by simp
qed

text \<open>
  In a state that a history with fresh ids reaches, the newest history entry is the
  add of the newest stroke, and no other stroke has its id.
\<close>

lemma fresh_history_newest_entry:
  assumes "freshAdds acts createInitialState"
    and "undoStack (run acts createInitialState) = us @ [lop]"
  shows "\<exists>ss T. op_type lop = Op_add \<and> op_stroke lop = Some T
           \<and> strokes (run acts createInitialState) = ss @ [T]
           \<and> (\<forall>s\<in>set ss. s_id s \<noteq> s_id T)"
proof -
  have "historyInv (run acts createInitialState)"
    using historyInv_initial assms(1) by (rule historyInv_run)
  from historyInv_last [OF this assms(2)] show ?thesis by metis
qed

subsection \<open>The shape of the history stacks\<close>

lemma historyShape_initial: "historyShape createInitialState"
  by (simp add: historyShape_def createInitialState_def)

lemma historyShape_add: "historyShape S \<Longrightarrow> historyShape (addStroke S T a t)"
  by (simp add: historyShape_def addStroke_def)

lemma historyShape_clear: "historyShape (clearCanvas a)"
  by (simp add: historyShape_def clearCanvas_def)

lemma historyShape_undo:
  assumes "historyShape S"
  shows "historyShape (undoOperation S a t)"
proof (cases "undoStack S = []")
  case True
  with assms show ?thesis by (simp add: undoOperation_def)
next
  case False
  then have "last (undoStack S) \<in> set (undoStack S)" by simp
  with assms have "op_stroke (last (undoStack S)) \<noteq> None"
    by (simp add: historyShape_def list_all_iff)
  with assms False show ?thesis
    by (simp add: historyShape_def undoOperation_def Let_def list_all_butlast)
qed

lemma historyShape_redo:
  assumes "historyShape S"
  shows "historyShape (redoOperation S a t)"
proof (cases "redoStack S = []")
  case True
  with assms show ?thesis by (simp add: redoOperation_def)
next
  case False
  with assms show ?thesis
    by (simp add: historyShape_def redoOperation_def Let_def list_all_butlast
          split: option.split)
qed

lemma historyShape_run: "historyShape S \<Longrightarrow> historyShape (run acts S)"
proof (induction acts arbitrary: S)
  case Nil
  then show ?case by simp
next
  case (Cons act rest)
  then show ?case
    by (cases act)
       (simp_all add: historyShape_add historyShape_undo historyShape_redo historyShape_clear)
qed

subsection \<open>Message delivery\<close>

lemma deliver_append:
  "deliver userId (xs @ ys) c = deliver userId ys (deliver userId xs c)"
  by (induction xs arbitrary: c) auto

lemma receive_preview: "isPreview (m_body message) \<Longrightarrow> receive userId now message c = c"
  by (cases "m_body message") (simp_all add: receive_def onBroadcast_def)

lemma deliver_previews:
  "list_all (\<lambda>(now, message). isPreview (m_body message)) previews
     \<Longrightarrow> deliver userId previews c = c"
  by (induction previews arbitrary: c) (auto simp add: receive_preview)

subsection \<open>The drawing session\<close>

text \<open>The finalizing client keeps a stroke of fewer than two points out of its own list.\<close>

lemma endStroke_discards_short:
  assumes "currentStroke st = Some s" and "length (s_points s) < 2"
  shows "canvasState (fst (endStroke userId now st)) = canvasState st"
  using assms by (simp add: endStroke_def)

text \<open>A finished stroke is returned, and so published, whatever its number of points.\<close>

lemma endStroke_returns_stroke:
  assumes "currentStroke st = Some s" and "isDrawingRef st"
  shows "snd (endStroke userId now st) = Some s"
  using assms by (simp add: endStroke_def)

text \<open>A pointer move publishes the cursor message and nothing else.\<close>

lemma handleMove_messages:
  "snd (handleMove userId t point c)
     = sendCursorPosition userId t point (cv_isDrawingRef (canvasRefs c)) (sync c)"
  by (simp add: handleMove_def handleCursorMove_def handleDrawMove_def Let_def)

text \<open>
  The distance filter follows the rounded computation: from the origin to
  \<open>nearPoint\<close> the exact squared distance is below 4, the computed distance is 2, and
  the point is recorded.
\<close>

lemma handleMove_rounding_boundary:
  "(let (a1, out1) = handleStart ''alice'' ''1700000000900-z1x2c3v'' 1 2 3 (pt 0 0) initialClient;
        (a2, out2) = handleMove ''alice'' 4 nearPoint a1
    in nearX * nearX + nearY * nearY < 4
       \<and> map_option s_points (currentStroke (drawing a2)) = Some [pt 0 0, nearPoint])"
proof -
  have "nearX * nearX + nearY * nearY < 4" by (simp add: nearX_def nearY_def)
  then show ?thesis
    by (simp add: handleStart_def handleMove_def handleDrawStart_def handleDrawMove_def
        handleCursorMove_def startStroke_def continueStroke_def sendStrokeStart_def
        sendCursorPosition_def broadcast_def initialClient_def initialDrawingState_def
        createInitialState_def pt_def nearPoint_def round_nearX round_nearY round_nearXX
        round_nearYY round_near_sum roundToDouble_numeral Let_def)
qed

section \<open>Adding strokes\<close>

text \<open>
  Claim C1, as stated, fails: \<open>addStroke\<close> has no test for an id that is already in
  \<open>strokes\<close>. Adding the same stroke a second time gives a different state, with two
  entries of one id.
\<close>

theorem addStroke_duplicate_counterexample:
  "addStroke (addStroke createInitialState redStroke ''alice'' 1) redStroke ''alice'' 1
     \<noteq> addStroke createInitialState redStroke ''alice'' 1
   \<and> \<not> distinct (map s_id (strokes
         (addStroke (addStroke createInitialState redStroke ''alice'' 1) redStroke ''alice'' 1)))"
  by (simp add: addStroke_def createInitialState_def)

text \<open>
  Claim C1, amended: \<open>addStroke\<close> performs no duplicate check. For every state and
  stroke it appends the stroke to \<open>strokes\<close>, appends an add operation (with the
  stroke, the author and the time) to \<open>undoStack\<close> and empties \<open>redoStack\<close>. So a
  stroke added twice is listed twice, with two add operations, and the result of the
  second add is never the result of the first. The ids of \<open>strokes\<close> are pairwise
  distinct in every state that a history from the initial state reaches when each
  added stroke has an id that is not in \<open>strokes\<close> at that moment.
\<close>

theorem addStroke_appends:
  "addStroke S T a t1 =
     \<lparr>strokes = strokes S @ [T],
      undoStack = undoStack S @ [\<lparr>op_type = Op_add, op_stroke = Some T,
                                 op_userId = a, op_timestamp = t1\<rparr>],
      redoStack = []\<rparr>
   \<and> strokes (addStroke (addStroke S T a t1) T a t2) = strokes S @ [T, T]
   \<and> undoStack (addStroke (addStroke S T a t1) T a t2) =
       undoStack S @ [\<lparr>op_type = Op_add, op_stroke = Some T,
                        op_userId = a, op_timestamp = t1\<rparr>,
                      \<lparr>op_type = Op_add, op_stroke = Some T,
                        op_userId = a, op_timestamp = t2\<rparr>]
   \<and> redoStack (addStroke (addStroke S T a t1) T a t2) = []
   \<and> addStroke (addStroke S T a t1) T a t2 \<noteq> addStroke S T a t1
   \<and> (freshAdds acts createInitialState \<longrightarrow>
        distinct (map s_id (strokes (run acts createInitialState))))"
proof -
  have single: "addStroke S T a t1 =
     \<lparr>strokes = strokes S @ [T],
      undoStack = undoStack S @ [\<lparr>op_type = Op_add, op_stroke = Some T,
                                 op_userId = a, op_timestamp = t1\<rparr>],
      redoStack = []\<rparr>"
    by (simp add: addStroke_def)
  have twice: "strokes (addStroke (addStroke S T a t1) T a t2) = strokes S @ [T, T]"
    by (simp add: addStroke_def)
  have "length (strokes (addStroke (addStroke S T a t1) T a t2))
          \<noteq> length (strokes (addStroke S T a t1))"
    by (simp add: addStroke_def)
  then have differ: "addStroke (addStroke S T a t1) T a t2 \<noteq> addStroke S T a t1"
    by auto
  have fresh: "distinct (map s_id (strokes (run acts createInitialState)))"
    if "freshAdds acts createInitialState"
    using historyInv_run [OF historyInv_initial that] by (simp add: historyInv_def)
  from single twice differ fresh show ?thesis by (simp add: addStroke_def)
qed

text \<open>
  A history with fresh ids in which three strokes are added, one of them again after
  its undo, and in which an undo and a redo move a stroke between the lists.
\<close>

theorem addStroke_appends_witness:
  "freshAdds [A_add redStroke ''alice'' 1, A_add fivePointStroke ''alice'' 2,
              A_undo ''bob'' 3, A_add blueStroke ''bob'' 4, A_undo ''alice'' 5,
              A_redo ''alice'' 6, A_add fivePointStroke ''alice'' 7] createInitialState
   \<and> strokes (run [A_add redStroke ''alice'' 1, A_add fivePointStroke ''alice'' 2,
              A_undo ''bob'' 3, A_add blueStroke ''bob'' 4, A_undo ''alice'' 5,
              A_redo ''alice'' 6, A_add fivePointStroke ''alice'' 7] createInitialState)
       = [redStroke, blueStroke, fivePointStroke]
   \<and> distinct (map s_id (strokes
        (run [A_add redStroke ''alice'' 1, A_add fivePointStroke ''alice'' 2,
              A_undo ''bob'' 3, A_add blueStroke ''bob'' 4, A_undo ''alice'' 5,
              A_redo ''alice'' 6, A_add fivePointStroke ''alice'' 7] createInitialState)))
   \<and> map op_timestamp (undoStack (addStroke (addStroke createInitialState redStroke ''alice'' 1)
        redStroke ''alice'' 2)) = [1, 2]"
  using addStroke_appends [of createInitialState redStroke "''alice''" 1 2
          "[A_add redStroke ''alice'' 1, A_add fivePointStroke ''alice'' 2,
            A_undo ''bob'' 3, A_add blueStroke ''bob'' 4, A_undo ''alice'' 5,
            A_redo ''alice'' 6, A_add fivePointStroke ''alice'' 7]"]
  by (simp add: createInitialState_def addStroke_def undoOperation_def redoOperation_def
        redStroke_def fivePointStroke_def blueStroke_def Let_def)

text \<open>
  Claim C7: whatever the redo stack of the state holds, the state that \<open>addStroke\<close>
  returns has an empty redo stack.
\<close>

theorem addStroke_clears_redoStack: "redoStack (addStroke S T a now) = []"
  by (simp add: addStroke_def)

section \<open>Short strokes\<close>

text \<open>
  Claim C2 at a click without a drag: alice presses and releases the pointer at one
  place. Her own list stays empty, but the \<^verbatim>\<open>stroke_end\<close> message is published all
  the same, and bob, who receives her messages, commits the stroke of one point.
\<close>

theorem single_point_stroke_reaches_peer:
  "(let (a1, out1) = handleStart ''alice'' ''1700000000900-z1x2c3v'' 1 2 3 (pt 5 5) initialClient;
        (a2, out2) = handleEnd ''alice'' 4 5 6 a1;
        b = deliver ''bob'' (map (Pair 7) (out1 @ out2)) initialClient
    in strokes (canvasState (drawing a2)) = []
       \<and> map (\<lambda>s. (s_id s, s_points s)) (strokes (canvasState (drawing b)))
           = [(''1700000000900-z1x2c3v'', [pt 5 5])])"
  by (simp add: handleStart_def handleEnd_def handleDrawStart_def handleDrawEnd_def
        handleCursorMove_def startStroke_def endStroke_def sendStrokeStart_def sendStrokeEnd_def
        sendCursorPosition_def broadcast_def initialClient_def initialDrawingState_def
        createInitialState_def receive_def onBroadcast_def addRemoteStroke_def addStroke_def
        updateUserCursor_def Let_def)

section \<open>Undo and redo\<close>

text \<open>
  Claim C3, as stated, fails: alice's stroke is undone and redone by bob. The strokes
  come back, but the restored history entry names bob and the time of the redo, so
  the state is not the one that undo started from.
\<close>

theorem redo_undo_counterexample:
  "undoStack (addStroke createInitialState redStroke ''alice'' 1) \<noteq> []
   \<and> redoOperation (undoOperation (addStroke createInitialState redStroke ''alice'' 1) ''bob'' 2)
        ''bob'' 3
     \<noteq> addStroke createInitialState redStroke ''alice'' 1"
  by (simp add: addStroke_def createInitialState_def undoOperation_def redoOperation_def Let_def)

text \<open>
  Claim C3, amended: when the newest history entry of \<open>S\<close> is the add of the newest
  stroke \<open>T\<close> and no other stroke has the id of \<open>T\<close>, redo after undo gives back the
  strokes in their order and the redo stack, and the undo stack up to its newest
  entry, which is a new add operation of \<open>T\<close> with the author and the time of the
  redo. The result is \<open>S\<close> itself exactly when the entry that was undone already had
  that author and that time.
\<close>

theorem redo_undo_restores:
  assumes "undoStack S = us @ [lop]" and "op_type lop = Op_add" and "op_stroke lop = Some T"
    and "strokes S = ss @ [T]" and "\<forall>s\<in>set ss. s_id s \<noteq> s_id T"
  shows "redoOperation (undoOperation S a t1) a t2 =
           S\<lparr>undoStack := us @ [\<lparr>op_type = Op_add, op_stroke = Some T,
                                 op_userId = a, op_timestamp = t2\<rparr>]\<rparr>
         \<and> (redoOperation (undoOperation S a t1) a t2 = S
              \<longleftrightarrow> op_userId lop = a \<and> op_timestamp lop = t2)"
proof -
  let ?new = "\<lparr>op_type = Op_add, op_stroke = Some T, op_userId = a, op_timestamp = t2\<rparr>"
  have e: "redoOperation (undoOperation S a t1) a t2 = S\<lparr>undoStack := us @ [?new]\<rparr>"
    unfolding undo_of_matching [OF assms] using assms(4)
    by (simp add: redoOperation_def Let_def)
  have "S\<lparr>undoStack := us @ [?new]\<rparr> = S \<longleftrightarrow> us @ [?new] = undoStack S"
    by (cases S) auto
  also have "\<dots> \<longleftrightarrow> ?new = lop" using assms(1) by auto
  also have "\<dots> \<longleftrightarrow> op_userId lop = a \<and> op_timestamp lop = t2"
    using assms(2,3) by (cases lop) auto
  finally show ?thesis using e by simp
qed

theorem redo_undo_restores_witness:
  "redoOperation (undoOperation (addStroke createInitialState redStroke ''alice'' 1) ''bob'' 2)
        ''bob'' 3
     = (addStroke createInitialState redStroke ''alice'' 1)
         \<lparr>undoStack := [\<lparr>op_type = Op_add, op_stroke = Some redStroke,
                         op_userId = ''bob'', op_timestamp = 3\<rparr>]\<rparr>"
  using redo_undo_restores [of "addStroke createInitialState redStroke ''alice'' 1" "[]"
          "\<lparr>op_type = Op_add, op_stroke = Some redStroke, op_userId = ''alice'', op_timestamp = 1\<rparr>"
          redStroke "[]" "''bob''" 2 3]
  by (simp add: addStroke_def createInitialState_def)

text \<open>
  Claim C9: undo of a state with an empty undo stack returns that state, whatever its
  strokes and its redo stack; in particular undo of the initial state is the initial
  state.
\<close>

theorem undo_empty_history:
  "(undoStack S = [] \<longrightarrow> undoOperation S a now = S)
   \<and> undoOperation createInitialState a now = createInitialState"
  by (simp add: undoOperation_def createInitialState_def)

theorem undo_empty_history_witness:
  "undoStack \<lparr>strokes = [redStroke], undoStack = [], redoStack = []\<rparr> = []
   \<and> undoOperation \<lparr>strokes = [redStroke], undoStack = [], redoStack = []\<rparr> ''bob'' 5
       = \<lparr>strokes = [redStroke], undoStack = [], redoStack = []\<rparr>"
  using undo_empty_history [of "\<lparr>strokes = [redStroke], undoStack = [], redoStack = []\<rparr>" "''bob''" 5]
  by simp

text \<open>
  Claim C10: in every state that a history of \<open>addStroke\<close>, \<open>undoOperation\<close>,
  \<open>redoOperation\<close> and \<open>clearCanvas\<close> calls reaches from the initial state, each undo
  entry is an add with its stroke and each redo entry has its stroke. So a redo on a
  non-empty redo stack always takes the branch that restores the stroke; the branch
  for an entry without a stroke is never taken.
\<close>

theorem history_stack_shape:
  fixes acts a t
  defines "S \<equiv> run acts createInitialState"
  shows "historyShape S \<and>
     (redoStack S \<noteq> [] \<longrightarrow>
        (\<exists>T. op_stroke (last (redoStack S)) = Some T \<and>
             redoOperation S a t =
               \<lparr>strokes = strokes S @ [T],
                undoStack = undoStack S @ [\<lparr>op_type = Op_add, op_stroke = Some T,
                                           op_userId = a, op_timestamp = t\<rparr>],
                redoStack = butlast (redoStack S)\<rparr>))"
proof -
  have sh: "historyShape S"
    unfolding S_def by (rule historyShape_run [OF historyShape_initial])
  have "\<exists>T. op_stroke (last (redoStack S)) = Some T \<and>
             redoOperation S a t =
               \<lparr>strokes = strokes S @ [T],
                undoStack = undoStack S @ [\<lparr>op_type = Op_add, op_stroke = Some T,
                                           op_userId = a, op_timestamp = t\<rparr>],
                redoStack = butlast (redoStack S)\<rparr>"
    if ne: "redoStack S \<noteq> []"
  proof -
    from ne have "last (redoStack S) \<in> set (redoStack S)" by simp
    with sh obtain T where "op_stroke (last (redoStack S)) = Some T"
      by (auto simp add: historyShape_def list_all_iff)
    with ne show ?thesis by (simp add: redoOperation_def Let_def)
  qed
  with sh show ?thesis by blast
qed

theorem history_stack_shape_witness:
  "historyShape (run [A_add redStroke ''alice'' 1, A_undo ''bob'' 2] createInitialState)
   \<and> redoStack (run [A_add redStroke ''alice'' 1, A_undo ''bob'' 2] createInitialState) \<noteq> []
   \<and> op_stroke (last (redoStack
        (run [A_add redStroke ''alice'' 1, A_undo ''bob'' 2] createInitialState))) = Some redStroke"
  using history_stack_shape [of "[A_add redStroke ''alice'' 1, A_undo ''bob'' 2]" "''bob''" 3]
  by (simp add: createInitialState_def addStroke_def undoOperation_def Let_def)

section \<open>Messages while drawing\<close>

text \<open>
  Claim C4 at a recorded move: alice presses at (0, 0) and moves to (10, 0). The
  point passes the distance filter and is appended to the stroke in progress, and the
  only message of the move is the cursor position: no \<^verbatim>\<open>stroke_update\<close> is published.
\<close>

theorem recorded_move_sends_no_update:
  "(let (a1, out1) = handleStart ''alice'' ''1700000000900-z1x2c3v'' 1 2 3 (pt 0 0) initialClient;
        (a2, out2) = handleMove ''alice'' 4 (pt 10 0) a1
    in map_option s_points (currentStroke (drawing a2)) = Some [pt 0 0, pt 10 0]
       \<and> out2 = [\<lparr>m_body = Cursor_move (pt 10 0) True, m_userId = ''alice'', m_timestamp = 4\<rparr>])"
  by (simp add: handleStart_def handleMove_def handleDrawStart_def handleDrawMove_def
        handleCursorMove_def startStroke_def continueStroke_def sendStrokeStart_def
        sendCursorPosition_def broadcast_def initialClient_def initialDrawingState_def
        createInitialState_def pt_def roundToDouble_zero roundToDouble_numeral sqrt_100
        Let_def)

section \<open>Incoming messages\<close>

text \<open>
  Claim C5: a client that receives any sequence of \<^verbatim>\<open>stroke_start\<close> and
  \<^verbatim>\<open>stroke_update\<close> messages is left as it was, and the \<^verbatim>\<open>stroke_end\<close> message of
  another user that follows appends exactly the stroke it carries, with the points it
  carries, whatever the earlier messages held.
\<close>

theorem preview_messages_frame:
  assumes "list_all (\<lambda>(now, message). isPreview (m_body message)) previews"
    and "m_body e = Stroke_end T" and "m_userId e \<noteq> userId"
  shows "deliver userId previews c = c
     \<and> strokes (canvasState (drawing (deliver userId (previews @ [(now, e)]) c)))
         = strokes (canvasState (drawing c)) @ [T]
     \<and> s_points (last (strokes (canvasState (drawing (deliver userId (previews @ [(now, e)]) c)))))
         = s_points T"
proof -
  have p: "deliver userId previews c = c" using assms(1) by (rule deliver_previews)
  have "strokes (canvasState (drawing (receive userId now e c)))
          = strokes (canvasState (drawing c)) @ [T]"
    using assms(2,3) by (simp add: receive_def onBroadcast_def addRemoteStroke_def addStroke_def)
  with p show ?thesis by (simp add: deliver_append)
qed

theorem preview_messages_frame_witness:
  "strokes (canvasState (drawing (deliver ''bob''
      [(11, \<lparr>m_body = Stroke_start ''1700000000500-q8w2e5r'' Brush ''#1a1a2e'' 4 [pt 0 0],
             m_userId = ''alice'', m_timestamp = 1\<rparr>),
       (12, \<lparr>m_body = Stroke_update ''1700000000500-q8w2e5r'' [pt 100 100, pt 200 200],
             m_userId = ''alice'', m_timestamp = 2\<rparr>),
       (13, \<lparr>m_body = Stroke_update ''some-other-id'' [],
             m_userId = ''alice'', m_timestamp = 3\<rparr>),
       (14, \<lparr>m_body = Stroke_end fivePointStroke, m_userId = ''alice'', m_timestamp = 4\<rparr>)]
      initialClient))) = [fivePointStroke]
   \<and> length (s_points fivePointStroke) = 5"
  using preview_messages_frame [of
      "[(11, \<lparr>m_body = Stroke_start ''1700000000500-q8w2e5r'' Brush ''#1a1a2e'' 4 [pt 0 0],
             m_userId = ''alice'', m_timestamp = 1\<rparr>),
       (12, \<lparr>m_body = Stroke_update ''1700000000500-q8w2e5r'' [pt 100 100, pt 200 200],
             m_userId = ''alice'', m_timestamp = 2\<rparr>),
       (13, \<lparr>m_body = Stroke_update ''some-other-id'' [],
             m_userId = ''alice'', m_timestamp = 3\<rparr>)]"
      "\<lparr>m_body = Stroke_end fivePointStroke, m_userId = ''alice'', m_timestamp = 4\<rparr>"
      fivePointStroke "''bob''" initialClient 14]
  by (simp add: initialClient_def initialDrawingState_def createInitialState_def
        fivePointStroke_def receive_def onBroadcast_def addRemoteStroke_def addStroke_def)

text \<open>
  Claim C8: a message whose user id is the local one changes nothing: the hook state
  (canvas state and user roster) and the whole client are as before.
\<close>

theorem self_echo_ignored:
  "m_userId message = userId \<Longrightarrow>
     onBroadcast userId now message st = st \<and> receive userId now message c = c"
  by (simp add: receive_def onBroadcast_def)

theorem self_echo_ignored_witness:
  "m_userId \<lparr>m_body = Stroke_end redStroke, m_userId = ''alice'', m_timestamp = 4\<rparr> = ''alice''
   \<and> receive ''alice'' 5 \<lparr>m_body = Stroke_end redStroke, m_userId = ''alice'', m_timestamp = 4\<rparr>
        initialClient = initialClient
   \<and> onBroadcast ''alice'' 5
        \<lparr>m_body = Stroke_end redStroke, m_userId = ''alice'', m_timestamp = 4\<rparr>
        initialDrawingState = initialDrawingState"
  using self_echo_ignored [of "\<lparr>m_body = Stroke_end redStroke, m_userId = ''alice'', m_timestamp = 4\<rparr>"
          "''alice''" 5 initialDrawingState initialClient]
  by simp

section \<open>Clearing the canvas\<close>

text \<open>
  Claim C6: \<open>clearCanvas\<close> returns the empty state for every author, with nothing on
  the undo stack, so an undo after it changes nothing. The client that clears holds
  the empty state and publishes one \<^verbatim>\<open>clear\<close> message; a peer that receives the
  \<^verbatim>\<open>clear\<close> message of another user holds the empty state too; and an undo on either
  client leaves the state empty.
\<close>

theorem clear_resets:
  "clearCanvas a = \<lparr>strokes = [], undoStack = [], redoStack = []\<rparr>
   \<and> undoOperation (clearCanvas a) b t = clearCanvas a
   \<and> canvasState (drawing (fst (handleClear a tMsg c))) = clearCanvas a
   \<and> snd (handleClear a tMsg c) =
       (if channelRef (sync c) then [\<lparr>m_body = Clear, m_userId = a, m_timestamp = tMsg\<rparr>] else [])
   \<and> canvasState (drawing (fst (handleUndo a t tMsg' (fst (handleClear a tMsg c)))))
       = clearCanvas a
   \<and> (m_body message = Clear \<and> m_userId message \<noteq> b \<longrightarrow>
        canvasState (drawing (receive b now message peer))
          = \<lparr>strokes = [], undoStack = [], redoStack = []\<rparr>
        \<and> canvasState (drawing (fst (handleUndo b t tMsg' (receive b now message peer))))
          = \<lparr>strokes = [], undoStack = [], redoStack = []\<rparr>)"
  by (simp add: clearCanvas_def undoOperation_def handleClear_def handleUndo_def clear_def
        undo_def sendClear_def broadcast_def receive_def onBroadcast_def)

theorem clear_resets_witness:
  "strokes (canvasState (drawing peerWithStroke)) = [redStroke]
   \<and> snd (handleClear ''alice'' 20 peerWithStroke)
       = [\<lparr>m_body = Clear, m_userId = ''alice'', m_timestamp = 20\<rparr>]
   \<and> canvasState (drawing (receive ''bob'' 21
        \<lparr>m_body = Clear, m_userId = ''alice'', m_timestamp = 20\<rparr> peerWithStroke))
       = \<lparr>strokes = [], undoStack = [], redoStack = []\<rparr>
   \<and> canvasState (drawing (fst (handleUndo ''bob'' 22 23 (receive ''bob'' 21
        \<lparr>m_body = Clear, m_userId = ''alice'', m_timestamp = 20\<rparr> peerWithStroke))))
       = \<lparr>strokes = [], undoStack = [], redoStack = []\<rparr>"
  using clear_resets [of "''alice''" "''bob''" 22 20 peerWithStroke 23
          "\<lparr>m_body = Clear, m_userId = ''alice'', m_timestamp = 20\<rparr>" 21 peerWithStroke]
  by (simp add: peerWithStroke_def initialClient_def initialDrawingState_def
        createInitialState_def addRemoteStroke_def addStroke_def)

end
